theory Spec2Isabelle
  imports Main
begin

section \<open>JavaScript values\<close>

text \<open>
  The values that \<^verbatim>\<open>JSON.parse\<close> returns and that property reads produce. Numbers are
  only passed around and tested for zero by the code below, so they are integers here
  (no NaN). \<open>JUndefined\<close> is what a read of an absent property gives; it never occurs
  inside a parsed payload.
\<close>

datatype jsval =
    JUndefined
  | JNull
  | JBool bool
  | JNum int
  | JStr string
  | JArr "jsval list"
  | JObj "(string \<times> jsval) list"

text \<open>ToBoolean, as used by \<^verbatim>\<open>if (v)\<close>, \<^verbatim>\<open>a && b\<close> and \<^verbatim>\<open>a || b\<close>: arrays and objects are
  always truthy, also the empty array.\<close>

fun truthy :: "jsval \<Rightarrow> bool" where
  "truthy JUndefined = False"
| "truthy JNull = False"
| "truthy (JBool b) = b"
| "truthy (JNum n) = (n \<noteq> 0)"
| "truthy (JStr s) = (s \<noteq> [])"
| "truthy (JArr xs) = True"
| "truthy (JObj kvs) = True"

definition nullish :: "jsval \<Rightarrow> bool" where
  "nullish v = (v = JUndefined \<or> v = JNull)"

text \<open>
  \<open>get_own v k\<close> is the read \<^verbatim>\<open>v.k\<close> of a named property on a value that is neither
  \<^verbatim>\<open>null\<close> nor \<^verbatim>\<open>undefined\<close>. The names the client reads (choices, delta, content,
  citations, id, url, title, publishedDate, author, text, tag, data, error, message,
  status, statusCode, response) are not inherited from any prototype, so primitives and
  arrays answer \<^verbatim>\<open>undefined\<close>.
\<close>

fun get_own :: "jsval \<Rightarrow> string \<Rightarrow> jsval" where
  "get_own (JObj kvs) k = (case map_of kvs k of Some v \<Rightarrow> v | None \<Rightarrow> JUndefined)"
| "get_own (JArr xs) k = (if k = ''length'' then JNum (int (length xs)) else JUndefined)"
| "get_own (JStr s) k = (if k = ''length'' then JNum (int (length s)) else JUndefined)"
| "get_own v k = JUndefined"

text \<open>\<open>elem0 v\<close> is the indexed read \<^verbatim>\<open>v[0]\<close> on a value that is not nullish.\<close>

fun elem0 :: "jsval \<Rightarrow> jsval" where
  "elem0 (JArr xs) = (case xs of [] \<Rightarrow> JUndefined | x # _ \<Rightarrow> x)"
| "elem0 (JStr s) = (case s of [] \<Rightarrow> JUndefined | c # _ \<Rightarrow> JStr [c])"
| "elem0 (JObj kvs) = (case map_of kvs ''0'' of Some v \<Rightarrow> v | None \<Rightarrow> JUndefined)"
| "elem0 v = JUndefined"

section \<open>Errors\<close>

text \<open>
  Modelled from the spec: the module \<^verbatim>\<open>./errors\<close> (class ExaError, enum HttpStatusCode) is
  not among the sources. ExaError is built as
  \<^verbatim>\<open>new ExaError(message, statusCode, timestamp?, path?)\<close> and read through \<^verbatim>\<open>.message\<close>
  and \<^verbatim>\<open>.statusCode\<close>; the record keeps the four constructor arguments as they are
  passed. The enum members have their HTTP values (BadRequest 400, Unauthorized 401,
  InternalServerError 500).
\<close>

record ExaError =
  message :: jsval
  statusCode :: int
  timestamp :: "string option"
  path :: "string option"

definition BadRequest :: int where
  "BadRequest = 400"

definition Unauthorized :: int where
  "Unauthorized = 401"

definition InternalServerError :: int where
  "InternalServerError = 500"

text \<open>What a \<^verbatim>\<open>throw\<close> or a rejected promise carries: the TypeError of a property read on
  \<^verbatim>\<open>null\<close> or of a call of a non-function, or an ExaError.\<close>

datatype thrown = TypeError | Exa ExaError

definition get_prop :: "jsval \<Rightarrow> string \<Rightarrow> thrown + jsval" where
  "get_prop v k = (if nullish v then Inl TypeError else Inr (get_own v k))"

section \<open>Strings\<close>

text \<open>
  Decoded text is a \<open>string\<close>, one \<open>char\<close> per code unit. \<open>isWhiteSpace\<close> is the set
  matched by \<^verbatim>\<open>\s\<close> and removed by \<^verbatim>\<open>trim()\<close>, as far as it lies in the first 256 code
  points: TAB, LF, VT, FF, CR, SPACE and NBSP.
\<close>

definition isWhiteSpace :: "char \<Rightarrow> bool" where
  "isWhiteSpace c =
     (c = CHR 0x09 \<or> c = CHR 0x0A \<or> c = CHR 0x0B \<or> c = CHR 0x0C \<or> c = CHR 0x0D
      \<or> c = CHR 0x20 \<or> c = CHR 0xA0)"

definition startsWith :: "string \<Rightarrow> string \<Rightarrow> bool" where
  "startsWith s p = (take (length p) s = p)"

definition trim :: "string \<Rightarrow> string" where
  "trim s = rev (dropWhile isWhiteSpace (rev (dropWhile isWhiteSpace s)))"

text \<open>\<^verbatim>\<open>line.replace(/^data:\s*/, "")\<close>\<close>

definition strip_data :: "string \<Rightarrow> string" where
  "strip_data line =
     (if startsWith line ''data:'' then dropWhile isWhiteSpace (drop 5 line) else line)"

text \<open>\<^verbatim>\<open>s.split("\n")\<close>: never empty; the last element is what follows the last newline.\<close>

fun split_nl :: "string \<Rightarrow> string list" where
  "split_nl [] = [[]]"
| "split_nl (c # cs) =
     (if c = CHR 0x0A then [] # split_nl cs
      else (case split_nl cs of l # ls \<Rightarrow> (c # l) # ls | [] \<Rightarrow> [[c]]))"

section \<open>The text decoder\<close>

text \<open>
  \<^verbatim>\<open>new TextDecoder()\<close> with \<^verbatim>\<open>decode(value, { stream: true })\<close> is the platform's: it
  runs the encoding's handler over the bytes of the chunk, one byte at a time, and keeps
  the handler's state (the bytes of an unfinished character) for the next call. The
  handler \<open>h\<close> and its state type are parameters; \<open>h d b\<close> is the text emitted at byte
  \<open>b\<close> and the next state.
\<close>

type_synonym ('d, 'b) handler = "'d \<Rightarrow> 'b \<Rightarrow> string \<times> 'd"

fun decode :: "('d, 'b) handler \<Rightarrow> 'd \<Rightarrow> 'b list \<Rightarrow> string \<times> 'd" where
  "decode h d [] = ([], d)"
| "decode h d (b # bs) =
     (case h d b of (t, d') \<Rightarrow>
        (case decode h d' bs of (ts, d'') \<Rightarrow> (t @ ts, d'')))"

section \<open>The chunk decoder: processChunk\<close>

record Citation =
  cit_id :: jsval
  cit_url :: jsval
  cit_title :: jsval
  cit_publishedDate :: jsval
  cit_author :: jsval
  cit_text :: jsval

record AnswerStreamChunk =
  content :: jsval
  citations :: "Citation list option"

text \<open>The arrow function given to \<^verbatim>\<open>map\<close>: six property reads on the element \<open>c\<close>, which
  throw when \<open>c\<close> is \<^verbatim>\<open>null\<close>.\<close>

definition citation_of :: "jsval \<Rightarrow> thrown + Citation" where
  "citation_of c =
     (if nullish c then Inl TypeError
      else Inr \<lparr> cit_id = get_own c ''id'', cit_url = get_own c ''url'',
                 cit_title = get_own c ''title'',
                 cit_publishedDate = get_own c ''publishedDate'',
                 cit_author = get_own c ''author'', cit_text = get_own c ''text'' \<rparr>)"

fun map_citations :: "jsval list \<Rightarrow> thrown + Citation list" where
  "map_citations [] = Inr []"
| "map_citations (c # cs) =
     (case citation_of c of
        Inl e \<Rightarrow> Inl e
      | Inr x \<Rightarrow> (case map_citations cs of Inl e \<Rightarrow> Inl e | Inr xs \<Rightarrow> Inr (x # xs)))"

text \<open>\<^verbatim>\<open>chunkData.citations.map(...)\<close>: only an array has a callable \<^verbatim>\<open>map\<close>.\<close>

fun citations_map :: "jsval \<Rightarrow> thrown + Citation list" where
  "citations_map (JArr xs) = map_citations xs"
| "citations_map v = Inl TypeError"

definition processChunk :: "jsval \<Rightarrow> thrown + AnswerStreamChunk" where
  "processChunk chunkData =
     (if nullish chunkData then Inl TypeError
      else
        let choices = get_own chunkData ''choices'';
            content =
              (if truthy choices \<and> truthy (elem0 choices)
                  \<and> truthy (get_own (elem0 choices) ''delta'')
               then get_own (get_own (elem0 choices) ''delta'') ''content''
               else JUndefined);
            cits = get_own chunkData ''citations''
        in if truthy cits \<and> cits \<noteq> JStr ''null''
           then (case citations_map cits of
                   Inl e \<Rightarrow> Inl e
                 | Inr cs \<Rightarrow> Inr \<lparr> content = content, citations = Some cs \<rparr>)
           else Inr \<lparr> content = content, citations = None \<rparr>)"

text \<open>\<^verbatim>\<open>chunk.content || chunk.citations\<close>: a citations array, when defined, is truthy.\<close>

definition yielded :: "AnswerStreamChunk \<Rightarrow> bool" where
  "yielded chunk = (truthy (content chunk) \<or> citations chunk \<noteq> None)"

section \<open>The incremental consumer: streamAnswer\<close>

text \<open>
  \<^verbatim>\<open>JSON.parse\<close> is the platform's: \<open>parse s = None\<close> when it throws. A run of the
  generator is the list of chunks it yields, followed by the value it throws, if any.
  The reader delivers the chunks of a list and then \<^verbatim>\<open>done\<close>.
\<close>

type_synonym json_parse = "string \<Rightarrow> jsval option"

type_synonym gen_run = "AnswerStreamChunk list \<times> thrown option"

text \<open>The \<^verbatim>\<open>for (const line of lines)\<close> loop of one read; a throw of processChunk leaves the
  generator.\<close>

fun streamAnswer_lines :: "json_parse \<Rightarrow> string list \<Rightarrow> gen_run" where
  "streamAnswer_lines parse [] = ([], None)"
| "streamAnswer_lines parse (line # lines) =
     (if \<not> startsWith line ''data: '' then streamAnswer_lines parse lines
      else
        let jsonStr = trim (strip_data line)
        in if jsonStr = [] \<or> jsonStr = ''[DONE]'' then streamAnswer_lines parse lines
           else (case parse jsonStr of
                   None \<Rightarrow> streamAnswer_lines parse lines
                 | Some chunkData \<Rightarrow>
                     (case processChunk chunkData of
                        Inl e \<Rightarrow> ([], Some e)
                      | Inr chunk \<Rightarrow>
                          (case streamAnswer_lines parse lines of (out, r) \<Rightarrow>
                             (if yielded chunk then chunk # out else out, r)))))"

text \<open>The code after the loop: the buffer is looked at once; here a throw of JSON.parse or
  of processChunk is caught and dropped.\<close>

definition streamAnswer_leftover :: "json_parse \<Rightarrow> string \<Rightarrow> AnswerStreamChunk list" where
  "streamAnswer_leftover parse buffer =
     (if startsWith buffer ''data: '' then
        let leftover = trim (strip_data buffer)
        in if leftover \<noteq> [] \<and> leftover \<noteq> ''[DONE]'' then
             (case parse leftover of
                None \<Rightarrow> []
              | Some chunkData \<Rightarrow>
                  (case processChunk chunkData of
                     Inl e \<Rightarrow> []
                   | Inr chunk \<Rightarrow> if yielded chunk then [chunk] else []))
           else []
      else [])"

text \<open>The \<^verbatim>\<open>while (true)\<close> loop over the reads, with the decoder state \<open>d\<close> and the
  buffer.\<close>

fun streamAnswer_read ::
  "json_parse \<Rightarrow> ('d, 'b) handler \<Rightarrow> 'd \<Rightarrow> string \<Rightarrow> 'b list list \<Rightarrow> gen_run" where
  "streamAnswer_read parse h d buffer [] = (streamAnswer_leftover parse buffer, None)"
| "streamAnswer_read parse h d buffer (v # vs) =
     (case decode h d v of (t, d') \<Rightarrow>
        let lines = split_nl (buffer @ t)
        in (case streamAnswer_lines parse (butlast lines) of
              (out, Some e) \<Rightarrow> (out, Some e)
            | (out, None) \<Rightarrow>
                (case streamAnswer_read parse h d' (last lines) vs of
                   (out', r) \<Rightarrow> (out @ out', r))))"

text \<open>The response passed to both consumers: \<^verbatim>\<open>ok\<close>, \<^verbatim>\<open>status\<close>, the text of the body
  (read for the error message) and the chunks of the body, \<open>None\<close> when there is no
  body to read.\<close>

record 'b Response =
  ok :: bool
  status :: int
  body_text :: string
  body :: "'b list list option"

definition streamAnswer ::
  "json_parse \<Rightarrow> ('d, 'b) handler \<Rightarrow> 'd \<Rightarrow> string \<Rightarrow> 'b Response \<Rightarrow> gen_run" where
  "streamAnswer parse h d0 now response =
     (if \<not> ok response then
        ([], Some (Exa \<lparr> message = JStr (body_text response), statusCode = status response,
                         timestamp = Some now, path = None \<rparr>))
      else (case body response of
              None \<Rightarrow>
                ([], Some (Exa \<lparr> message = JStr ''No response body available for streaming.'',
                                 statusCode = 500, timestamp = Some now, path = None \<rparr>))
            | Some vs \<Rightarrow> streamAnswer_read parse h d0 [] vs))"

section \<open>The blocking consumer: parseSSEStream\<close>

text \<open>How the promise settles. The executor calls \<^verbatim>\<open>resolve\<close> or \<^verbatim>\<open>reject\<close> and returns, or
  falls out of the loop and rejects, or throws and rejects in its \<^verbatim>\<open>catch\<close>.\<close>

datatype settled = Resolved jsval | Rejected thrown

definition error_message :: "jsval \<Rightarrow> jsval" where
  "error_message chunk =
     (let err = get_own chunk ''error'';
          m = (if nullish err then JUndefined else get_own err ''message'')
      in if truthy m then m else JStr ''Unknown error'')"

text \<open>The \<^verbatim>\<open>for\<close> loop of one read: \<open>None\<close> when it ends without settling.\<close>

fun parseSSEStream_lines :: "json_parse \<Rightarrow> string \<Rightarrow> string list \<Rightarrow> settled option" where
  "parseSSEStream_lines parse now [] = None"
| "parseSSEStream_lines parse now (line # lines) =
     (if \<not> startsWith line ''data: '' then parseSSEStream_lines parse now lines
      else
        let jsonStr = trim (strip_data line)
        in if jsonStr = [] \<or> jsonStr = ''[DONE]'' then parseSSEStream_lines parse now lines
           else (case parse jsonStr of
                   None \<Rightarrow> parseSSEStream_lines parse now lines
                 | Some chunk \<Rightarrow>
                     (case get_prop chunk ''tag'' of
                        Inl e \<Rightarrow> Some (Rejected e)
                      | Inr tag \<Rightarrow>
                          if tag = JStr ''complete'' then
                            Some (Resolved (get_own chunk ''data''))
                          else if tag = JStr ''error'' then
                            Some (Rejected (Exa \<lparr> message = error_message chunk,
                                                   statusCode = InternalServerError,
                                                   timestamp = Some now, path = None \<rparr>))
                          else parseSSEStream_lines parse now lines)))"

definition no_completion :: "string \<Rightarrow> thrown" where
  "no_completion now =
     Exa \<lparr> message = JStr ''Stream ended without a completion event.'',
           statusCode = InternalServerError, timestamp = Some now, path = None \<rparr>"

fun parseSSEStream_read ::
  "json_parse \<Rightarrow> string \<Rightarrow> ('d, 'b) handler \<Rightarrow> 'd \<Rightarrow> string \<Rightarrow> 'b list list \<Rightarrow> settled" where
  "parseSSEStream_read parse now h d buffer [] = Rejected (no_completion now)"
| "parseSSEStream_read parse now h d buffer (v # vs) =
     (case decode h d v of (t, d') \<Rightarrow>
        let lines = split_nl (buffer @ t)
        in (case parseSSEStream_lines parse now (butlast lines) of
              Some s \<Rightarrow> s
            | None \<Rightarrow> parseSSEStream_read parse now h d' (last lines) vs))"

definition parseSSEStream ::
  "json_parse \<Rightarrow> string \<Rightarrow> ('d, 'b) handler \<Rightarrow> 'd \<Rightarrow> 'b Response \<Rightarrow> settled" where
  "parseSSEStream parse now h d0 response =
     (case body response of
        None \<Rightarrow>
          Rejected (Exa \<lparr> message = JStr ''No response body available for streaming.'',
                          statusCode = 500, timestamp = Some now, path = None \<rparr>)
      | Some vs \<Rightarrow> parseSSEStream_read parse now h d0 [] vs)"

section \<open>The line reassembler\<close>

text \<open>
  Both consumers start each read with the same three statements,
  \<^verbatim>\<open>buffer += decoder.decode(value, { stream: true }); lines = buffer.split("\n");
  buffer = lines.pop() || ""\<close>. \<open>reassemble\<close> is that part alone: the lines handed to
  the \<^verbatim>\<open>for\<close> loops over all reads, in order, and the buffer left when the reader is done.
\<close>

fun reassemble :: "('d, 'b) handler \<Rightarrow> 'd \<Rightarrow> string \<Rightarrow> 'b list list \<Rightarrow> string list \<times> string" where
  "reassemble h d buffer [] = ([], buffer)"
| "reassemble h d buffer (v # vs) =
     (case decode h d v of (t, d') \<Rightarrow>
        let lines = split_nl (buffer @ t)
        in (case reassemble h d' (last lines) vs of
              (ls, b) \<Rightarrow> (butlast lines @ ls, b)))"

section \<open>The consumers as functions of the whole decoded text\<close>

text \<open>\<open>decoded h d vs\<close> is the text that the reads of \<open>vs\<close> append to the buffer, one
  after the other.\<close>

fun decoded :: "('d, 'b) handler \<Rightarrow> 'd \<Rightarrow> 'b list list \<Rightarrow> string" where
  "decoded h d [] = []"
| "decoded h d (v # vs) = (case decode h d v of (t, d') \<Rightarrow> t @ decoded h d' vs)"

text \<open>What streamAnswer does on a text whose lines are all seen by the loop, except the
  last, which is left in the buffer.\<close>

definition streamAnswer_text :: "json_parse \<Rightarrow> string \<Rightarrow> gen_run" where
  "streamAnswer_text parse txt =
     (case streamAnswer_lines parse (butlast (split_nl txt)) of
        (out, Some e) \<Rightarrow> (out, Some e)
      | (out, None) \<Rightarrow> (out @ streamAnswer_leftover parse (last (split_nl txt)), None))"

definition parseSSEStream_text :: "json_parse \<Rightarrow> string \<Rightarrow> string \<Rightarrow> settled" where
  "parseSSEStream_text parse now txt =
     (case parseSSEStream_lines parse now (butlast (split_nl txt)) of
        Some s \<Rightarrow> s
      | None \<Rightarrow> Rejected (no_completion now))"

text \<open>The parsed payloads of the lines that reach \<^verbatim>\<open>switch (chunk.tag)\<close>, in order.\<close>

fun forwarded :: "json_parse \<Rightarrow> string list \<Rightarrow> jsval list" where
  "forwarded parse [] = []"
| "forwarded parse (line # lines) =
     (if startsWith line ''data: '' \<and> trim (strip_data line) \<noteq> []
         \<and> trim (strip_data line) \<noteq> ''[DONE]''
      then (case parse (trim (strip_data line)) of
              None \<Rightarrow> forwarded parse lines
            | Some v \<Rightarrow> v # forwarded parse lines)
      else forwarded parse lines)"

definition is_terminal :: "jsval \<Rightarrow> bool" where
  "is_terminal v = (get_own v ''tag'' = JStr ''complete'' \<or> get_own v ''tag'' = JStr ''error'')"

text \<open>How a terminal payload settles the promise.\<close>

definition settle :: "string \<Rightarrow> jsval \<Rightarrow> settled" where
  "settle now v =
     (if get_own v ''tag'' = JStr ''complete'' then Resolved (get_own v ''data'')
      else Rejected (Exa \<lparr> message = error_message v, statusCode = InternalServerError,
                            timestamp = Some now, path = None \<rparr>))"

section \<open>The non-streaming answer\<close>

text \<open>
  \<^verbatim>\<open>options?: AnswerOptions\<close>; an absent field reads as \<^verbatim>\<open>undefined\<close>. \<^verbatim>\<open>isZodSchema\<close> and
  \<^verbatim>\<open>zodToJsonSchema\<close> are imported and are parameters. The request method is a parameter
  too, so that what is proved of answer holds whatever a request does:
  \<open>request endpoint method body w\<close> is the outcome of the call and the world after it,
  for a world \<open>w\<close> that records whatever the network does.
\<close>

record AnswerOptions =
  opt_stream :: jsval
  opt_text :: jsval
  opt_model :: jsval
  opt_systemPrompt :: jsval
  opt_outputSchema :: jsval
  opt_userLocation :: jsval

text \<open>\<^verbatim>\<open>options?.f\<close>\<close>

definition opt :: "AnswerOptions option \<Rightarrow> (AnswerOptions \<Rightarrow> jsval) \<Rightarrow> jsval" where
  "opt options f = (case options of None \<Rightarrow> JUndefined | Some opts \<Rightarrow> f opts)"

text \<open>\<^verbatim>\<open>a ?? b\<close>\<close>

definition coalesce :: "jsval \<Rightarrow> jsval \<Rightarrow> jsval" where
  "coalesce a b = (if nullish a then b else a)"

definition use_streamAnswer :: string where
  "use_streamAnswer =
     ''For streaming responses, please use streamAnswer() instead:\<newline>\<newline>'' @
     ''for await (const chunk of exa.streamAnswer(query)) {\<newline>'' @
     ''  // Handle chunks\<newline>'' @
     ''}''"

type_synonym 'w request = "string \<Rightarrow> string \<Rightarrow> jsval \<Rightarrow> 'w \<Rightarrow> (thrown + jsval) \<times> 'w"

definition answer ::
  "(jsval \<Rightarrow> bool) \<Rightarrow> (jsval \<Rightarrow> jsval) \<Rightarrow> 'w request \<Rightarrow>
   string \<Rightarrow> AnswerOptions option \<Rightarrow> 'w \<Rightarrow> (thrown + jsval) \<times> 'w" where
  "answer isZodSchema zodToJsonSchema request query options w =
     (if truthy (opt options opt_stream) then
        (Inl (Exa \<lparr> message = JStr use_streamAnswer, statusCode = BadRequest,
                      timestamp = None, path = None \<rparr>), w)
      else
        let outputSchema0 = opt options opt_outputSchema;
            outputSchema =
              (if truthy outputSchema0 \<and> isZodSchema outputSchema0
               then zodToJsonSchema outputSchema0 else outputSchema0);
            requestBody =
              JObj [(''query'', JStr query),
                    (''stream'', JBool False),
                    (''text'', coalesce (opt options opt_text) (JBool False)),
                    (''model'', coalesce (opt options opt_model) (JStr ''exa'')),
                    (''systemPrompt'', opt options opt_systemPrompt),
                    (''outputSchema'', outputSchema),
                    (''userLocation'', opt options opt_userLocation)]
        in request ''/answer'' ''POST'' requestBody w)"

section \<open>Error normalisation: toExaError\<close>

text \<open>
  A caught value is an instance of ExaError or some other value. \<^verbatim>\<open>String(e)\<close> and
  \<^verbatim>\<open>parseInt(val, 10)\<close> are the platform's and are parameters. \<^verbatim>\<open>String(e)\<close> can throw (an
  object with an own \<^verbatim>\<open>toString\<close> property that is not callable has no primitive value):
  \<open>toStr v = Inl t\<close> then. \<open>parseInt s = None\<close> when the result is NaN.
\<close>

datatype caught = Instance_ExaError ExaError | Other jsval

text \<open>\<^verbatim>\<open>typeof v === "object"\<close>\<close>

fun typeof_object :: "jsval \<Rightarrow> bool" where
  "typeof_object JNull = True"
| "typeof_object (JArr xs) = True"
| "typeof_object (JObj kvs) = True"
| "typeof_object v = False"

definition coerceStatus :: "(string \<Rightarrow> int option) \<Rightarrow> jsval \<Rightarrow> int option" where
  "coerceStatus parseInt val =
     (case val of JNum n \<Rightarrow> Some n | JStr s \<Rightarrow> parseInt s | _ \<Rightarrow> None)"

text \<open>\<^verbatim>\<open>a ?? b\<close> on the results of coerceStatus.\<close>

definition orElse :: "int option \<Rightarrow> int option \<Rightarrow> int option" where
  "orElse a b = (case a of Some n \<Rightarrow> Some n | None \<Rightarrow> b)"

text \<open>
  The function returns an instance of ExaError at once. For any other value the defaults
  come first, \<^verbatim>\<open>let status = 500; let message = String(e);\<close>, so that a throw of
  \<^verbatim>\<open>String(e)\<close> leaves the function before any field is read. The reads that follow are
  on a truthy object and do not throw.
\<close>

definition toExaError ::
  "(jsval \<Rightarrow> thrown + string) \<Rightarrow> (string \<Rightarrow> int option) \<Rightarrow> caught \<Rightarrow> thrown + ExaError" where
  "toExaError toStr parseInt e =
     (case e of
        Instance_ExaError x \<Rightarrow> Inr x
      | Other v \<Rightarrow>
          (case toStr v of
             Inl t \<Rightarrow> Inl t
           | Inr message0 \<Rightarrow>
               if truthy v \<and> typeof_object v then
                 let objStatus =
                       orElse (coerceStatus parseInt (get_own v ''status''))
                              (coerceStatus parseInt (get_own v ''statusCode''));
                     status =
                       (case objStatus of
                          Some n \<Rightarrow> n
                        | None \<Rightarrow>
                            let resp = get_own v ''response''
                            in if truthy resp \<and> typeof_object resp then
                                 (case orElse (coerceStatus parseInt (get_own resp ''status''))
                                              (coerceStatus parseInt
                                                 (get_own resp ''statusCode'')) of
                                    Some n \<Rightarrow> n
                                  | None \<Rightarrow> 500)
                               else 500);
                     msg = (case get_own v ''message'' of JStr s \<Rightarrow> s | _ \<Rightarrow> message0)
                 in Inr \<lparr> message = JStr msg, statusCode = status,
                            timestamp = None, path = None \<rparr>
               else Inr \<lparr> message = JStr message0, statusCode = 500,
                           timestamp = None, path = None \<rparr>))"





text \<open>
  \<^verbatim>\<open>Effect.tryPromise({ try: thunk, catch: toExaError })\<close> on a promise that has settled: a
  fulfilment is the success, a rejection the failure with the ExaError that toExaError
  returns. When toExaError throws there is no ExaError to fail with; \<open>Threw\<close> keeps what
  it threw.
\<close>

datatype 'a outcome = Succeeded 'a | Failed ExaError | Threw thrown

definition tryPromiseExa ::
  "(jsval \<Rightarrow> thrown + string) \<Rightarrow> (string \<Rightarrow> int option) \<Rightarrow> caught + 'a \<Rightarrow> 'a outcome" where
  "tryPromiseExa toStr parseInt p =
     (case p of
        Inr a \<Rightarrow> Succeeded a
      | Inl e \<Rightarrow>
          (case toExaError toStr parseInt e of Inl t \<Rightarrow> Threw t | Inr x \<Rightarrow> Failed x))"

section \<open>Polling a research job\<close>

record Research =
  researchId :: string
  research_status :: string

definition terminal :: "string \<Rightarrow> bool" where
  "terminal s = (s = ''completed'' \<or> s = ''failed'' \<or> s = ''canceled'')"

text \<open>Modelled from the spec: the timeout error of the poller; it carries the resource id
  and the elapsed time.\<close>

definition timeout_error :: "string \<Rightarrow> nat \<Rightarrow> caught" where
  "timeout_error rid elapsed =
     Other (JObj [(''name'', JStr ''TimeoutError''), (''resourceId'', JStr rid),
                  (''elapsedMs'', JNum (int elapsed))])"

text \<open>
  Modelled from the spec: \<^verbatim>\<open>client.research.pollUntilFinished\<close> of \<^verbatim>\<open>./research\<close> is not
  among the sources. The loop of section 4.6, for the job poller: fetch the current
  state; if its status is terminal, resolve with that state (also for failed and
  canceled); if not, compare the elapsed time with the timeout and fail with the timeout
  error when it is exceeded; otherwise sleep and repeat. A failing fetch rejects with
  what it threw. The world is a script: the outcome of each fetch (\<open>Inl\<close> what it threw)
  with the elapsed time read after it. \<open>None\<close>: the script ended before the loop did.
\<close>

fun research_pollUntilFinished ::
  "string \<Rightarrow> nat \<Rightarrow> ((caught + Research) \<times> nat) list \<Rightarrow> (caught + Research) option" where
  "research_pollUntilFinished rid timeoutMs [] = None"
| "research_pollUntilFinished rid timeoutMs ((Inl e, elapsed) # script) = Some (Inl e)"
| "research_pollUntilFinished rid timeoutMs ((Inr r, elapsed) # script) =
     (if terminal (research_status r) then Some (Inr r)
      else if elapsed > timeoutMs then Some (Inl (timeout_error rid elapsed))
      else research_pollUntilFinished rid timeoutMs script)"

text \<open>\<^verbatim>\<open>buildResearchService(client).pollUntilFinished\<close>: the client's promise through
  tryPromiseExa.\<close>

definition pollUntilFinished ::
  "(jsval \<Rightarrow> thrown + string) \<Rightarrow> (string \<Rightarrow> int option) \<Rightarrow> string \<Rightarrow> nat \<Rightarrow>
   ((caught + Research) \<times> nat) list \<Rightarrow> Research outcome option" where
  "pollUntilFinished toStr parseInt rid timeoutMs script =
     map_option (tryPromiseExa toStr parseInt) (research_pollUntilFinished rid timeoutMs script)"

section \<open>Sample instances of the platform functions\<close>

text \<open>A decoder for a single-byte encoding: every byte is one character, and there is no
  state to keep.\<close>

definition single_byte :: "(unit, char) handler" where
  "single_byte d b = ([b], d)"

text \<open>The values of \<^verbatim>\<open>JSON.parse\<close> on the payloads of the examples below. On any other
  argument the table says \<open>None\<close>; the examples apply it to its entries and to text that
  is not JSON.\<close>

text \<open>The values of \<^verbatim>\<open>String(e)\<close> on the caught values of the examples below: a string is
  itself, a plain object without a \<^verbatim>\<open>toString\<close> of its own is \<^verbatim>\<open>[object Object]\<close>, and
  for the object whose own \<^verbatim>\<open>toString\<close> is the number 1 the conversion throws a TypeError.
  The examples apply the table to its entries only.\<close>

definition js_String :: "jsval \<Rightarrow> thrown + string" where
  "js_String v =
     (case map_of
        [(JStr ''string error'', Inr ''string error''),
         (JObj [(''status'', JNum 429), (''message'', JStr ''Rate limited'')],
            Inr ''[object Object]''),
         (JObj [(''statusCode'', JNum 401), (''message'', JStr ''Unauthorized'')],
            Inr ''[object Object]''),
         (JObj [(''response'', JObj [(''status'', JNum 503)]),
                (''message'', JStr ''Service unavailable'')],
            Inr ''[object Object]''),
         (JObj [(''status'', JStr ''abc''), (''response'', JObj [(''statusCode'', JStr ''404'')])],
            Inr ''[object Object]''),
         (JObj [(''toString'', JNum 1), (''status'', JNum 404), (''message'', JStr ''m'')],
            Inl TypeError)]
        v of
        Some r \<Rightarrow> r
      | None \<Rightarrow> Inr ''[object Object]'')"

text \<open>\<^verbatim>\<open>parseInt(s, 10)\<close> on the strings of the examples: NaN on \<^verbatim>\<open>abc\<close>.\<close>

definition js_parseInt :: "string \<Rightarrow> int option" where
  "js_parseInt s = map_of [(''404'', 404), (''429'', 429)] s"

definition JSON_parse :: json_parse where
  \<open>JSON_parse s =
     map_of
       [(''null'', JNull),
        (''{"tag":"complete","data":{"x":1}}'',
           JObj [(''tag'', JStr ''complete''), (''data'', JObj [(''x'', JNum 1)])]),
        (''{"tag":"progress"}'', JObj [(''tag'', JStr ''progress'')]),
        (''{"citations":[]}'', JObj [(''citations'', JArr [])]),
        (''{"citations":"null"}'', JObj [(''citations'', JStr ''null'')]),
        (''{"choices":[{"delta":{"content":"Hi"}}]}'',
           JObj [(''choices'', JArr [JObj [(''delta'', JObj [(''content'', JStr ''Hi'')])]])])]
       s\<close>

section \<open>Splitting and decoding\<close>

lemma split_nl_nonempty: "split_nl s \<noteq> []"
  by (induction s) (auto split: list.splits)

lemma split_nl_no_newline: "CHR 0x0A \<notin> set s \<Longrightarrow> split_nl s = [s]"
  by (induction s) auto

lemma last_split_nl_no_newline: "CHR 0x0A \<notin> set (last (split_nl s))"
proof (induction s)
  case Nil
  then show ?case by simp
next
  case (Cons c s)
  then show ?case
    using split_nl_nonempty[of s] by (cases "split_nl s") (auto split: if_splits)
qed

text \<open>Splitting a text in two pieces: the lines of the first piece but its last, then the
  lines of what the last one and the second piece make together.\<close>

lemma split_nl_append:
  "split_nl (a @ b) = butlast (split_nl a) @ split_nl (last (split_nl a) @ b)"
proof (induction a)
  case Nil
  then show ?case by simp
next
  case (Cons c a)
  show ?case
  proof (cases "c = CHR 0x0A")
    case True
    then show ?thesis using Cons split_nl_nonempty[of a] by simp
  next
    case False
    obtain y ys where Y: "split_nl a = y # ys"
      using split_nl_nonempty[of a] by (cases "split_nl a") auto
    show ?thesis
    proof (cases ys)
      case Nil
      then show ?thesis using False Cons Y by simp
    next
      case (Cons z zs)
      then show ?thesis using False Cons.IH Y by simp
    qed
  qed
qed

lemma butlast_split_nl_append:
  "butlast (split_nl (a @ t @ r)) =
     butlast (split_nl (a @ t)) @ butlast (split_nl (last (split_nl (a @ t)) @ r))"
proof -
  have "butlast (split_nl ((a @ t) @ r)) =
     butlast (split_nl (a @ t)) @ butlast (split_nl (last (split_nl (a @ t)) @ r))"
    by (subst split_nl_append) (simp add: butlast_append split_nl_nonempty)
  then show ?thesis by simp
qed

lemma last_split_nl_append:
  "last (split_nl (a @ t @ r)) = last (split_nl (last (split_nl (a @ t)) @ r))"
proof -
  have "last (split_nl ((a @ t) @ r)) = last (split_nl (last (split_nl (a @ t)) @ r))"
    by (subst split_nl_append) (simp add: split_nl_nonempty)
  then show ?thesis by simp
qed

lemma split_nl_newline: "split_nl (a @ CHR 0x0A # b) = split_nl a @ split_nl b"
  by (induction a) (auto simp: split_nl_nonempty split: list.splits)

lemma decode_append:
  "decode h d (a @ b) =
     (case decode h d a of (t1, d1) \<Rightarrow>
        (case decode h d1 b of (t2, d2) \<Rightarrow> (t1 @ t2, d2)))"
  by (induction a arbitrary: d) (auto split: prod.splits)

text \<open>The text of all reads is the text of the concatenated bytes: where the chunks are cut
  makes no difference to the decoder.\<close>

lemma decoded_concat: "decoded h d vs = fst (decode h d (concat vs))"
  by (induction vs arbitrary: d) (auto simp: decode_append split: prod.splits)

section \<open>The reassembler does not depend on the chunking\<close>

text \<open>The buffer never holds a newline; under that invariant the lines handed out over all
  reads and the buffer at the end are the split of the whole text.\<close>

lemma reassemble_text:
  "CHR 0x0A \<notin> set buffer \<Longrightarrow>
   reassemble h d buffer vs =
     (butlast (split_nl (buffer @ decoded h d vs)), last (split_nl (buffer @ decoded h d vs)))"
proof (induction vs arbitrary: d buffer)
  case Nil
  then show ?case by (simp add: split_nl_no_newline)
next
  case (Cons v vs)
  obtain t d' where D: "decode h d v = (t, d')" by (cases "decode h d v")
  show ?case
    using Cons.IH[of "last (split_nl (buffer @ t))" d'] D last_split_nl_no_newline
    by (simp add: Let_def butlast_split_nl_append last_split_nl_append)
qed

text \<open>
  C2. Two chunk sequences with the same bytes give the reassembler the same lines in the
  same order and leave the same buffer; the lines, with the buffer after them, are the
  split of the whole decoded transcript at its newlines, so that no line is lost or
  handed out twice at a chunk boundary. This holds for every byte sequence and every
  handler of the decoder.
\<close>

theorem reassemble_chunking_invariant:
  assumes "concat vs = concat vs'"
  shows "reassemble h d [] vs = reassemble h d [] vs'
         \<and> fst (reassemble h d [] vs) @ [snd (reassemble h d [] vs)]
             = split_nl (fst (decode h d (concat vs)))"
proof -
  have "decoded h d vs = decoded h d vs'"
    using assms by (simp add: decoded_concat)
  then show ?thesis
    by (simp add: reassemble_text decoded_concat split_nl_nonempty)
qed

theorem reassemble_chunking_invariant_witness:
  "concat [''data: a\<newline>da'', ''ta: b\<newline>data: c'']
     = concat [''d'', ''ata: a\<newline>data: b'', ''\<newline>data: c'']
   \<and> reassemble single_byte () [] [''data: a\<newline>da'', ''ta: b\<newline>data: c'']
       = reassemble single_byte () [] [''d'', ''ata: a\<newline>data: b'', ''\<newline>data: c'']
   \<and> fst (reassemble single_byte () [] [''data: a\<newline>da'', ''ta: b\<newline>data: c''])
       = [''data: a'', ''data: b'']"
proof -
  have c: "concat [''data: a\<newline>da'', ''ta: b\<newline>data: c'']
           = concat [''d'', ''ata: a\<newline>data: b'', ''\<newline>data: c'']"
    by simp
  have "fst (reassemble single_byte () [] [''data: a\<newline>da'', ''ta: b\<newline>data: c''])
        = [''data: a'', ''data: b'']"
    by (simp add: single_byte_def)
  then show ?thesis
    using c reassemble_chunking_invariant [OF c, of single_byte "()"] by blast
qed

section \<open>streamAnswer, read by read and on the whole text\<close>

lemma streamAnswer_lines_append:
  "streamAnswer_lines parse (a @ b) =
     (case streamAnswer_lines parse a of
        (out, Some e) \<Rightarrow> (out, Some e)
      | (out, None) \<Rightarrow>
          (case streamAnswer_lines parse b of (out', r) \<Rightarrow> (out @ out', r)))"
  by (induction a) (auto simp: Let_def split: prod.splits option.splits sum.splits)

lemma streamAnswer_read_text:
  "CHR 0x0A \<notin> set buffer \<Longrightarrow>
   streamAnswer_read parse h d buffer vs = streamAnswer_text parse (buffer @ decoded h d vs)"
proof (induction vs arbitrary: d buffer)
  case Nil
  then show ?case by (simp add: streamAnswer_text_def split_nl_no_newline)
next
  case (Cons v vs)
  obtain t d' where D: "decode h d v = (t, d')" by (cases "decode h d v")
  show ?case
    using Cons.IH[of "last (split_nl (buffer @ t))" d'] D last_split_nl_no_newline
    by (auto simp: Let_def streamAnswer_text_def butlast_split_nl_append
        last_split_nl_append streamAnswer_lines_append
        split: prod.splits option.splits)
qed

lemma streamAnswer_body:
  "ok response \<Longrightarrow> body response = Some vs \<Longrightarrow>
   streamAnswer parse h d0 now response = streamAnswer_read parse h d0 [] vs"
  by (simp add: streamAnswer_def)

text \<open>The loop skips a \<^verbatim>\<open>data: [DONE]\<close> line before JSON.parse is called, and so does the
  code after the loop.\<close>

lemma streamAnswer_lines_DONE:
  "streamAnswer_lines parse (''data: [DONE]'' # ls) = streamAnswer_lines parse ls"
  by (simp add: startsWith_def strip_data_def trim_def isWhiteSpace_def)

lemma streamAnswer_leftover_DONE: "streamAnswer_leftover parse ''data: [DONE]'' = []"
  by (simp add: streamAnswer_leftover_def startsWith_def strip_data_def trim_def
      isWhiteSpace_def)

lemma streamAnswer_leftover_empty: "streamAnswer_leftover parse [] = []"
  by (simp add: streamAnswer_leftover_def startsWith_def)

lemma split_nl_DONE: "split_nl ''data: [DONE]'' = [''data: [DONE]'']"
  by simp

lemma streamAnswer_text_DONE_line:
  assumes "pre = [] \<or> last pre = CHR 0x0A"
  shows "streamAnswer_text parse (pre @ ''data: [DONE]'' @ CHR 0x0A # post)
         = streamAnswer_text parse (pre @ post)"
proof (cases "pre = []")
  case True
  have "split_nl (''data: [DONE]'' @ CHR 0x0A # post) = ''data: [DONE]'' # split_nl post"
    using split_nl_newline[of "''data: [DONE]''" post] split_nl_DONE by simp
  then show ?thesis
    using True split_nl_nonempty[of post]
    by (simp add: streamAnswer_text_def streamAnswer_lines_DONE del: streamAnswer_lines.simps)
next
  case False
  then obtain p where p: "pre = p @ [CHR 0x0A]"
    using assms by (metis append_butlast_last_id)
  have 1: "split_nl (pre @ ''data: [DONE]'' @ CHR 0x0A # post)
           = split_nl p @ ''data: [DONE]'' # split_nl post"
    using split_nl_newline[of p "''data: [DONE]'' @ CHR 0x0A # post"]
      split_nl_newline[of "''data: [DONE]''" post] split_nl_DONE p by simp
  have 2: "split_nl (pre @ post) = split_nl p @ split_nl post"
    using split_nl_newline[of p post] p by simp
  show ?thesis
    unfolding streamAnswer_text_def 1 2
    using split_nl_nonempty[of post]
    by (simp add: butlast_append streamAnswer_lines_append streamAnswer_lines_DONE
        del: streamAnswer_lines.simps split: prod.splits option.splits)
qed

lemma streamAnswer_text_DONE_final:
  assumes "pre = [] \<or> last pre = CHR 0x0A"
  shows "streamAnswer_text parse (pre @ ''data: [DONE]'') = streamAnswer_text parse pre"
proof (cases "pre = []")
  case True
  then show ?thesis
    using split_nl_DONE
    by (simp add: streamAnswer_text_def streamAnswer_leftover_DONE streamAnswer_leftover_empty)
next
  case False
  then obtain p where p: "pre = p @ [CHR 0x0A]"
    using assms by (metis append_butlast_last_id)
  have 1: "split_nl (pre @ ''data: [DONE]'') = split_nl p @ [''data: [DONE]'']"
    using split_nl_newline[of p "''data: [DONE]''"] split_nl_DONE p by simp
  have 2: "split_nl pre = split_nl p @ [[]]"
    using split_nl_newline[of p "[]"] p by simp
  show ?thesis
    unfolding streamAnswer_text_def 1 2
    by (simp add: butlast_append streamAnswer_leftover_DONE streamAnswer_leftover_empty
        split: prod.splits option.splits)
qed

text \<open>
  C7. Take any chunk sequence whose decoded text has a line \<^verbatim>\<open>data: [DONE]\<close> (it starts the
  text or follows a newline; it is ended by a newline or is the unterminated last line),
  and any chunk sequence that decodes to the same text without that line. streamAnswer
  yields the same chunks, and ends the same way, on both: the marker adds nothing to the
  output, wherever the chunk boundaries fall and whatever JSON.parse would make of it.
\<close>

theorem streamAnswer_DONE_no_contribution:
  assumes "pre = [] \<or> last pre = CHR 0x0A"
    and "rest = [] \<or> hd rest = CHR 0x0A"
    and "decoded h d vs = pre @ ''data: [DONE]'' @ rest"
    and "decoded h d vs' = pre @ tl rest"
  shows "streamAnswer_read parse h d [] vs = streamAnswer_read parse h d [] vs'"
proof (cases rest)
  case Nil
  then show ?thesis
    using assms streamAnswer_text_DONE_final[OF assms(1), of parse]
    by (simp add: streamAnswer_read_text)
next
  case (Cons c post)
  then have "rest = CHR 0x0A # post" using assms(2) by simp
  then show ?thesis
    using assms streamAnswer_text_DONE_line[OF assms(1), of parse post]
    by (simp add: streamAnswer_read_text)
qed

lemmas string_ops = startsWith_def strip_data_def trim_def isWhiteSpace_def

theorem streamAnswer_DONE_no_contribution_witness:
  \<open>decoded single_byte () [''data: [DO'', ''NE]\<newline>data: {"choices":[{"delta":{"content":"Hi"}}]}'']
       = [] @ ''data: [DONE]'' @ ''\<newline>data: {"choices":[{"delta":{"content":"Hi"}}]}''
   \<and> decoded single_byte () [''data: {"choices":[{"delta":{"content":"Hi"}}]}'']
       = [] @ tl ''\<newline>data: {"choices":[{"delta":{"content":"Hi"}}]}''
   \<and> streamAnswer_read JSON_parse single_byte () []
         [''data: [DO'', ''NE]\<newline>data: {"choices":[{"delta":{"content":"Hi"}}]}'']
       = streamAnswer_read JSON_parse single_byte () []
         [''data: {"choices":[{"delta":{"content":"Hi"}}]}'']
   \<and> streamAnswer_read JSON_parse single_byte () []
         [''data: {"choices":[{"delta":{"content":"Hi"}}]}'']
       = ([\<lparr> content = JStr ''Hi'', citations = None \<rparr>], None)\<close>
proof -
  have 1: "([]::string) = [] \<or> last [] = CHR 0x0A" by simp
  have 2: \<open>''\<newline>data: {"choices":[{"delta":{"content":"Hi"}}]}'' = []
           \<or> hd ''\<newline>data: {"choices":[{"delta":{"content":"Hi"}}]}'' = CHR 0x0A\<close> by simp
  have 3: \<open>decoded single_byte () [''data: [DO'', ''NE]\<newline>data: {"choices":[{"delta":{"content":"Hi"}}]}'']
       = [] @ ''data: [DONE]'' @ ''\<newline>data: {"choices":[{"delta":{"content":"Hi"}}]}''\<close>
    by (simp add: single_byte_def)
  have 4: \<open>decoded single_byte () [''data: {"choices":[{"delta":{"content":"Hi"}}]}'']
       = [] @ tl ''\<newline>data: {"choices":[{"delta":{"content":"Hi"}}]}''\<close>
    by (simp add: single_byte_def)
  have 5: \<open>streamAnswer_read JSON_parse single_byte () []
         [''data: {"choices":[{"delta":{"content":"Hi"}}]}'']
       = ([\<lparr> content = JStr ''Hi'', citations = None \<rparr>], None)\<close>
    by (simp add: single_byte_def string_ops JSON_parse_def streamAnswer_leftover_def
        processChunk_def nullish_def yielded_def)
  show ?thesis
    using 3 4 5 streamAnswer_DONE_no_contribution [OF 1 2 3 4, of JSON_parse]
    by simp
qed

section \<open>What processChunk makes of the citations field\<close>

text \<open>The string \<^verbatim>\<open>"null"\<close> in the citations field is taken as no citations.\<close>

lemma processChunk_citations_null:
  assumes "\<not> nullish chunkData" and "get_own chunkData ''citations'' = JStr ''null''"
  shows "\<exists>c. processChunk chunkData = Inr \<lparr> content = c, citations = None \<rparr>"
  using assms by (simp add: processChunk_def Let_def)

text \<open>An empty array in the citations field gives a defined, empty list.\<close>

lemma processChunk_citations_empty:
  assumes "\<not> nullish chunkData" and "get_own chunkData ''citations'' = JArr []"
  shows "\<exists>c. processChunk chunkData = Inr \<lparr> content = c, citations = Some [] \<rparr>"
  using assms by (simp add: processChunk_def Let_def)

text \<open>Every chunk that the loop yields passed the test \<^verbatim>\<open>chunk.content || chunk.citations\<close>.\<close>

lemma streamAnswer_lines_yielded:
  "chunk \<in> set (fst (streamAnswer_lines parse lines)) \<Longrightarrow> yielded chunk"
  by (induction lines)
     (auto simp: Let_def split: if_splits option.splits sum.splits prod.splits)

text \<open>
  C4. The payload \<^verbatim>\<open>{"citations":[]}\<close> has no content and an empty citations array.
  processChunk returns a chunk with \<^verbatim>\<open>content\<close> undefined and \<^verbatim>\<open>citations\<close> the empty
  list; the empty array is truthy, so the test before \<^verbatim>\<open>yield\<close> lets the chunk through,
  and streamAnswer yields a chunk with both fields empty.
\<close>

theorem streamAnswer_yields_empty_citations:
  \<open>processChunk (JObj [(''citations'', JArr [])])
     = Inr \<lparr> content = JUndefined, citations = Some [] \<rparr>
   \<and> yielded \<lparr> content = JUndefined, citations = Some [] \<rparr>
   \<and> streamAnswer JSON_parse single_byte () ''2026-01-01T00:00:00.000Z''
        \<lparr> ok = True, status = 200, body_text = [],
          body = Some [''data: {"citations":[]}\<newline>''] \<rparr>
     = ([\<lparr> content = JUndefined, citations = Some [] \<rparr>], None)\<close>
  by (simp add: streamAnswer_def single_byte_def string_ops JSON_parse_def
      streamAnswer_leftover_def processChunk_def nullish_def yielded_def)

section \<open>parseSSEStream, read by read and on the whole text\<close>

lemma parseSSEStream_lines_append:
  "parseSSEStream_lines parse now (a @ b) =
     (case parseSSEStream_lines parse now a of
        Some s \<Rightarrow> Some s
      | None \<Rightarrow> parseSSEStream_lines parse now b)"
  by (induction a) (auto simp: Let_def split: option.splits sum.splits)

lemma parseSSEStream_read_text:
  "CHR 0x0A \<notin> set buffer \<Longrightarrow>
   parseSSEStream_read parse now h d buffer vs =
     parseSSEStream_text parse now (buffer @ decoded h d vs)"
proof (induction vs arbitrary: d buffer)
  case Nil
  then show ?case by (simp add: parseSSEStream_text_def split_nl_no_newline)
next
  case (Cons v vs)
  obtain t d' where D: "decode h d v = (t, d')" by (cases "decode h d v")
  show ?case
    using Cons.IH[of "last (split_nl (buffer @ t))" d'] D last_split_nl_no_newline
    by (auto simp: Let_def parseSSEStream_text_def butlast_split_nl_append
        last_split_nl_append parseSSEStream_lines_append
        split: prod.splits option.splits)
qed

lemma parseSSEStream_body:
  "body response = Some vs \<Longrightarrow>
   parseSSEStream parse now h d0 response = parseSSEStream_read parse now h d0 [] vs"
  by (simp add: parseSSEStream_def)

text \<open>Both consumers give the same result on two chunk sequences with the same bytes.\<close>

lemma streamAnswer_chunking_invariant:
  "concat vs = concat vs' \<Longrightarrow>
   streamAnswer_read parse h d [] vs = streamAnswer_read parse h d [] vs'"
  by (simp add: streamAnswer_read_text decoded_concat)

lemma parseSSEStream_chunking_invariant:
  "concat vs = concat vs' \<Longrightarrow>
   parseSSEStream_read parse now h d [] vs = parseSSEStream_read parse now h d [] vs'"
  by (simp add: parseSSEStream_read_text decoded_concat)

text \<open>As long as no payload before the first terminal one is \<^verbatim>\<open>null\<close>, the loop settles with
  the first payload whose tag is \<^verbatim>\<open>complete\<close> or \<^verbatim>\<open>error\<close>, and does not settle when there
  is none.\<close>

lemma parseSSEStream_lines_first_terminal:
  assumes "\<forall>v \<in> set (takeWhile (\<lambda>v. \<not> is_terminal v) (forwarded parse lines)). \<not> nullish v"
  shows "parseSSEStream_lines parse now lines
         = map_option (settle now) (find is_terminal (forwarded parse lines))"
  using assms
proof (induction lines)
  case Nil
  then show ?case by simp
next
  case (Cons line lines)
  show ?case
  proof (cases "startsWith line ''data: '' \<and> trim (strip_data line) \<noteq> []
         \<and> trim (strip_data line) \<noteq> ''[DONE]''")
    case False
    then show ?thesis using Cons by (auto simp: Let_def)
  next
    case True
    show ?thesis
    proof (cases "parse (trim (strip_data line))")
      case None
      then show ?thesis using True Cons by (auto simp: Let_def)
    next
      case (Some v)
      show ?thesis
      proof (cases "is_terminal v")
        case t: True
        then have "\<not> nullish v" by (auto simp: is_terminal_def nullish_def)
        then show ?thesis using True Some t
          by (auto simp: Let_def get_prop_def is_terminal_def settle_def)
      next
        case f: False
        then have "\<not> nullish v" using Cons.prems True Some by simp
        moreover have
          "\<forall>v \<in> set (takeWhile (\<lambda>v. \<not> is_terminal v) (forwarded parse lines)). \<not> nullish v"
          using Cons.prems True Some f by simp
        ultimately show ?thesis using True Some f Cons.IH
          by (auto simp: Let_def get_prop_def is_terminal_def)
      qed
    qed
  qed
qed

text \<open>The three ways of settling, for a body none of whose payloads before the first
  terminal one is \<^verbatim>\<open>null\<close>: the lines are those of the whole decoded text but the last.\<close>

lemma parseSSEStream_three_ways:
  assumes "body response = Some vs"
    and "\<forall>v \<in> set (takeWhile (\<lambda>v. \<not> is_terminal v)
            (forwarded parse (butlast (split_nl (decoded h d0 vs))))). \<not> nullish v"
  shows "parseSSEStream parse now h d0 response =
     (case find is_terminal (forwarded parse (butlast (split_nl (decoded h d0 vs)))) of
        None \<Rightarrow> Rejected (no_completion now)
      | Some v \<Rightarrow>
          if get_own v ''tag'' = JStr ''complete'' then Resolved (get_own v ''data'')
          else Rejected (Exa \<lparr> message = error_message v, statusCode = InternalServerError,
                                timestamp = Some now, path = None \<rparr>))"
  using assms parseSSEStream_lines_first_terminal[OF assms(2), of now]
  by (simp add: parseSSEStream_body parseSSEStream_read_text parseSSEStream_text_def
      settle_def split: option.splits)

text \<open>
  C1. The body \<^verbatim>\<open>data: null\<close>, newline, \<^verbatim>\<open>data: {"tag":"complete","data":{"x":1}}\<close>, newline:
  the first line parses to \<^verbatim>\<open>null\<close>, the read of \<^verbatim>\<open>chunk.tag\<close> throws a TypeError, and the
  \<^verbatim>\<open>catch\<close> of the executor rejects the promise with it. The promise is neither resolved
  with the data of the complete line, nor rejected with an ExaError.
\<close>

theorem parseSSEStream_null_payload_rejects:
  \<open>parseSSEStream JSON_parse ''2026-01-01T00:00:00.000Z'' single_byte ()
     \<lparr> ok = True, status = 200, body_text = [],
       body = Some [''data: null\<newline>data: {"tag":"complete","data":{"x":1}}\<newline>''] \<rparr>
   = Rejected TypeError
   \<and> parseSSEStream JSON_parse ''2026-01-01T00:00:00.000Z'' single_byte ()
     \<lparr> ok = True, status = 200, body_text = [],
       body = Some [''data: {"tag":"progress"}\<newline>data: {"tag":"complete","data":{"x":1}}\<newline>''] \<rparr>
   = Resolved (JObj [(''x'', JNum 1)])\<close>
  by (simp add: parseSSEStream_def single_byte_def string_ops JSON_parse_def get_prop_def
      nullish_def)

section \<open>The end of the stream\<close>

text \<open>parseSSEStream never looks at what follows the last newline: an unterminated last
  line, whatever it holds, does not change how the promise settles.\<close>

lemma parseSSEStream_text_unterminated:
  assumes "txt = [] \<or> last txt = CHR 0x0A" and "CHR 0x0A \<notin> set fragment"
  shows "parseSSEStream_text parse now (txt @ fragment) = parseSSEStream_text parse now txt"
proof (cases "txt = []")
  case True
  then show ?thesis
    using assms(2) by (simp add: parseSSEStream_text_def split_nl_no_newline)
next
  case False
  then obtain p where p: "txt = p @ [CHR 0x0A]"
    using assms(1) by (metis append_butlast_last_id)
  have 1: "split_nl (txt @ fragment) = split_nl p @ [fragment]"
    using split_nl_newline[of p fragment] split_nl_no_newline[OF assms(2)] p by simp
  have 2: "split_nl txt = split_nl p @ [[]]"
    using split_nl_newline[of p "[]"] p by simp
  show ?thesis
    unfolding parseSSEStream_text_def 1 2 by (simp add: butlast_append)
qed

text \<open>streamAnswer hands the unterminated last line to the code after its loop.\<close>

lemma streamAnswer_text_unterminated:
  assumes "txt = [] \<or> last txt = CHR 0x0A" and "CHR 0x0A \<notin> set fragment"
    and "streamAnswer_text parse txt = (out, None)"
  shows "streamAnswer_text parse (txt @ fragment)
         = (out @ streamAnswer_leftover parse fragment, None)"
proof (cases "txt = []")
  case True
  then show ?thesis
    using assms(2,3)
    by (simp add: streamAnswer_text_def split_nl_no_newline streamAnswer_leftover_empty)
next
  case False
  then obtain p where p: "txt = p @ [CHR 0x0A]"
    using assms(1) by (metis append_butlast_last_id)
  have 1: "split_nl (txt @ fragment) = split_nl p @ [fragment]"
    using split_nl_newline[of p fragment] split_nl_no_newline[OF assms(2)] p by simp
  have 2: "split_nl txt = split_nl p @ [[]]"
    using split_nl_newline[of p "[]"] p by simp
  show ?thesis
    using assms(3) unfolding streamAnswer_text_def 1 2
    by (auto simp: butlast_append streamAnswer_leftover_empty split: prod.splits option.splits)
qed

text \<open>
  C5. The body is the single line \<^verbatim>\<open>data: {"tag":"complete","data":{"x":1}}\<close> with no newline
  after it. parseSSEStream leaves the line in the buffer, never looks at the buffer after
  the loop and rejects with the no-completion error; with the newline it resolves with
  the data. On a body that ends in an unterminated data line, streamAnswer does look at
  the buffer after the loop and yields the chunk.
\<close>

theorem parseSSEStream_drops_unterminated_line:
  \<open>parseSSEStream JSON_parse ''2026-01-01T00:00:00.000Z'' single_byte ()
     \<lparr> ok = True, status = 200, body_text = [],
       body = Some [''data: {"tag":"complete","data":{"x":1}}''] \<rparr>
   = Rejected (no_completion ''2026-01-01T00:00:00.000Z'')
   \<and> parseSSEStream JSON_parse ''2026-01-01T00:00:00.000Z'' single_byte ()
     \<lparr> ok = True, status = 200, body_text = [],
       body = Some [''data: {"tag":"complete","data":{"x":1}}\<newline>''] \<rparr>
   = Resolved (JObj [(''x'', JNum 1)])
   \<and> streamAnswer JSON_parse single_byte () ''2026-01-01T00:00:00.000Z''
     \<lparr> ok = True, status = 200, body_text = [],
       body = Some [''data: {"choices":[{"delta":{"content":"Hi"}}]}''] \<rparr>
   = ([\<lparr> content = JStr ''Hi'', citations = None \<rparr>], None)\<close>
  by (simp add: parseSSEStream_def streamAnswer_def single_byte_def string_ops JSON_parse_def
      get_prop_def nullish_def streamAnswer_leftover_def processChunk_def yielded_def)

section \<open>Error normalisation\<close>




text \<open>When the conversion to a string throws, toExaError throws the same, whatever the
  fields of the value are.\<close>

lemma toExaError_throws: "toStr v = Inl t \<Longrightarrow> toExaError toStr parseInt (Other v) = Inl t"
  by (simp add: toExaError_def)




text \<open>The cases of the test suite: \<^verbatim>\<open>{ status: 429, message: "Rate limited" }\<close>,
  \<^verbatim>\<open>{ statusCode: 401, message: "Unauthorized" }\<close>,
  \<^verbatim>\<open>{ response: { status: 503 }, message: "Service unavailable" }\<close> and the string
  \<^verbatim>\<open>"string error"\<close>.\<close>

lemma toExaError_status:
  "toExaError js_String js_parseInt
     (Other (JObj [(''status'', JNum 429), (''message'', JStr ''Rate limited'')]))
   = Inr \<lparr> message = JStr ''Rate limited'', statusCode = 429,
             timestamp = None, path = None \<rparr>"
  by (simp add: toExaError_def js_String_def coerceStatus_def orElse_def)

lemma toExaError_statusCode:
  "toExaError js_String js_parseInt
     (Other (JObj [(''statusCode'', JNum 401), (''message'', JStr ''Unauthorized'')]))
   = Inr \<lparr> message = JStr ''Unauthorized'', statusCode = 401,
             timestamp = None, path = None \<rparr>"
  by (simp add: toExaError_def js_String_def coerceStatus_def orElse_def)

lemma toExaError_response_status:
  "toExaError js_String js_parseInt
     (Other (JObj [(''response'', JObj [(''status'', JNum 503)]),
                   (''message'', JStr ''Service unavailable'')]))
   = Inr \<lparr> message = JStr ''Service unavailable'', statusCode = 503,
             timestamp = None, path = None \<rparr>"
  by (simp add: toExaError_def js_String_def coerceStatus_def orElse_def)

lemma toExaError_string:
  "toExaError js_String js_parseInt (Other (JStr ''string error''))
   = Inr \<lparr> message = JStr ''string error'', statusCode = 500,
             timestamp = None, path = None \<rparr>"
  by (simp add: toExaError_def js_String_def)

section \<open>Polling a research job until it is finished\<close>

lemma poll_skips_running:
  assumes "\<forall>ob \<in> set pre. \<exists>r t. ob = (Inr r, t) \<and> \<not> terminal (research_status r)
             \<and> t \<le> timeoutMs"
  shows "research_pollUntilFinished rid timeoutMs (pre @ script)
         = research_pollUntilFinished rid timeoutMs script"
  using assms by (induction pre) auto

lemma poll_rejects:
  "research_pollUntilFinished rid timeoutMs script = Some (Inl e) \<Longrightarrow>
   (\<exists>t. (Inl e, t) \<in> set script) \<or> (\<exists>t. t > timeoutMs \<and> e = timeout_error rid t)"
  by (induction rid timeoutMs script rule: research_pollUntilFinished.induct)
     (auto split: if_splits)

text \<open>
  C9. When the fetches before it succeed with a status that is not terminal, within the
  timeout, a fetch that observes the status failed or canceled makes pollUntilFinished
  succeed with that record. And when pollUntilFinished fails, it fails with the
  normalised error of a fetch that failed or of the timeout; when the normalisation
  itself throws, it is that of a fetch that failed or of the timeout as well.
\<close>

theorem pollUntilFinished_failed_resolves:
  "((\<forall>ob \<in> set pre. \<exists>r' t'. ob = (Inr r', t') \<and> \<not> terminal (research_status r')
        \<and> t' \<le> timeoutMs)
     \<and> (research_status r = ''failed'' \<or> research_status r = ''canceled'')
     \<longrightarrow> pollUntilFinished toStr parseInt rid timeoutMs (pre @ (Inr r, t) # rest)
           = Some (Succeeded r))
   \<and> (pollUntilFinished toStr parseInt rid timeoutMs script = Some (Failed x)
     \<longrightarrow> (\<exists>e t'. (Inl e, t') \<in> set script \<and> toExaError toStr parseInt e = Inr x)
         \<or> (\<exists>t'. t' > timeoutMs \<and> toExaError toStr parseInt (timeout_error rid t') = Inr x))
   \<and> (pollUntilFinished toStr parseInt rid timeoutMs script = Some (Threw y)
     \<longrightarrow> (\<exists>e t'. (Inl e, t') \<in> set script \<and> toExaError toStr parseInt e = Inl y)
         \<or> (\<exists>t'. t' > timeoutMs \<and> toExaError toStr parseInt (timeout_error rid t') = Inl y))"
proof (intro conjI impI)
  assume a: "(\<forall>ob \<in> set pre. \<exists>r' t'. ob = (Inr r', t') \<and> \<not> terminal (research_status r')
        \<and> t' \<le> timeoutMs)
     \<and> (research_status r = ''failed'' \<or> research_status r = ''canceled'')"
  then have "terminal (research_status r)" by (auto simp: terminal_def)
  then show "pollUntilFinished toStr parseInt rid timeoutMs (pre @ (Inr r, t) # rest)
             = Some (Succeeded r)"
    using a poll_skips_running[of pre timeoutMs rid "(Inr r, t) # rest"]
    by (simp add: pollUntilFinished_def tryPromiseExa_def)
next
  assume "pollUntilFinished toStr parseInt rid timeoutMs script = Some (Failed x)"
  then obtain z where z: "research_pollUntilFinished rid timeoutMs script = Some z"
    and tz: "tryPromiseExa toStr parseInt z = Failed x"
    by (auto simp: pollUntilFinished_def)
  then obtain e where e: "research_pollUntilFinished rid timeoutMs script = Some (Inl e)"
    and x: "toExaError toStr parseInt e = Inr x"
    by (cases z) (auto simp: tryPromiseExa_def split: sum.splits)
  from poll_rejects[OF e] x
  show "(\<exists>e t'. (Inl e, t') \<in> set script \<and> toExaError toStr parseInt e = Inr x)
         \<or> (\<exists>t'. t' > timeoutMs \<and> toExaError toStr parseInt (timeout_error rid t') = Inr x)"
    by blast
next
  assume "pollUntilFinished toStr parseInt rid timeoutMs script = Some (Threw y)"
  then obtain z where z: "research_pollUntilFinished rid timeoutMs script = Some z"
    and tz: "tryPromiseExa toStr parseInt z = Threw y"
    by (auto simp: pollUntilFinished_def)
  then obtain e where e: "research_pollUntilFinished rid timeoutMs script = Some (Inl e)"
    and y: "toExaError toStr parseInt e = Inl y"
    by (cases z) (auto simp: tryPromiseExa_def split: sum.splits)
  from poll_rejects[OF e] y
  show "(\<exists>e t'. (Inl e, t') \<in> set script \<and> toExaError toStr parseInt e = Inl y)
         \<or> (\<exists>t'. t' > timeoutMs \<and> toExaError toStr parseInt (timeout_error rid t') = Inl y)"
    by blast
qed

text \<open>A job seen running twice and then failed, with one second between the fetches and a
  timeout of ten minutes; a job still running when the timeout has passed; and the same
  job when the conversion of the timeout error to a string throws.\<close>

theorem pollUntilFinished_failed_resolves_witness:
  "pollUntilFinished (\<lambda>v. Inr ''[object Object]'') (\<lambda>s. None) ''r_1'' 600000
     ([(Inr \<lparr> researchId = ''r_1'', research_status = ''running'' \<rparr>, 0),
       (Inr \<lparr> researchId = ''r_1'', research_status = ''running'' \<rparr>, 1000)]
      @ (Inr \<lparr> researchId = ''r_1'', research_status = ''failed'' \<rparr>, 2000) # [])
     = Some (Succeeded \<lparr> researchId = ''r_1'', research_status = ''failed'' \<rparr>)
   \<and> pollUntilFinished (\<lambda>v. Inr ''[object Object]'') (\<lambda>s. None) ''r_1'' 600000
       [(Inr \<lparr> researchId = ''r_1'', research_status = ''running'' \<rparr>, 600001)]
     = Some (Failed \<lparr> message = JStr ''[object Object]'', statusCode = 500,
                        timestamp = None, path = None \<rparr>)
   \<and> toExaError (\<lambda>v. Inr ''[object Object]'') (\<lambda>s. None) (timeout_error ''r_1'' 600001)
     = Inr \<lparr> message = JStr ''[object Object]'', statusCode = 500,
               timestamp = None, path = None \<rparr>
   \<and> pollUntilFinished (\<lambda>v. Inl TypeError) (\<lambda>s. None) ''r_1'' 600000
       [(Inr \<lparr> researchId = ''r_1'', research_status = ''running'' \<rparr>, 600001)]
     = Some (Threw TypeError)"
proof -
  let ?run = "\<lparr> researchId = ''r_1'', research_status = ''running'' \<rparr>"
  let ?failed = "\<lparr> researchId = ''r_1'', research_status = ''failed'' \<rparr>"
  let ?pre = "[(Inr ?run, 0), (Inr ?run, 1000)] :: ((caught + Research) \<times> nat) list"
  let ?x = "\<lparr> message = JStr ''[object Object]'', statusCode = 500,
              timestamp = None, path = None \<rparr>"
  have h1: "(\<forall>ob \<in> set ?pre. \<exists>r' t'. ob = (Inr r', t') \<and> \<not> terminal (research_status r')
               \<and> t' \<le> (600000::nat))
            \<and> (research_status ?failed = ''failed'' \<or> research_status ?failed = ''canceled'')"
    by (simp add: terminal_def)
  have h2: "pollUntilFinished (\<lambda>v. Inr ''[object Object]'') (\<lambda>s. None) ''r_1'' 600000
       [(Inr ?run, 600001)] = Some (Failed ?x)"
    by (simp add: pollUntilFinished_def tryPromiseExa_def terminal_def timeout_error_def
        toExaError_def coerceStatus_def orElse_def)
  have h3: "toExaError (\<lambda>v. Inr ''[object Object]'') (\<lambda>s. None) (timeout_error ''r_1'' 600001)
       = Inr ?x"
    by (simp add: timeout_error_def toExaError_def coerceStatus_def orElse_def)
  have h4: "pollUntilFinished (\<lambda>v. Inl TypeError) (\<lambda>s. None) ''r_1'' 600000
       [(Inr ?run, 600001)] = Some (Threw TypeError)"
    by (simp add: pollUntilFinished_def tryPromiseExa_def terminal_def timeout_error_def
        toExaError_def)
  have "pollUntilFinished (\<lambda>v. Inr ''[object Object]'') (\<lambda>s. None) ''r_1'' 600000
          (?pre @ (Inr ?failed, 2000) # []) = Some (Succeeded ?failed)"
    using h1
      pollUntilFinished_failed_resolves
        [of ?pre 600000 ?failed "\<lambda>v. Inr ''[object Object]''" "\<lambda>s. None" "''r_1''" 2000 "[]"]
    by blast
  then show ?thesis
    using h2 h3 h4 by simp
qed

section \<open>answer refuses the stream option\<close>

text \<open>
  C10. With a truthy \<^verbatim>\<open>stream\<close> field in the options, answer fails with an ExaError whose
  status code is BadRequest, that is 400, and whose message points to streamAnswer. It
  does so whatever the request method would do and leaves the world as it was: no
  request is made.
\<close>

theorem answer_stream_rejected:
  assumes "truthy (opt options opt_stream)"
  shows "\<exists>e. answer isZodSchema zodToJsonSchema request query options w = (Inl (Exa e), w)
            \<and> statusCode e = BadRequest \<and> BadRequest = 400
            \<and> message e = JStr use_streamAnswer"
  using assms by (simp add: answer_def BadRequest_def)

theorem answer_stream_rejected_witness:
  "truthy (opt (Some \<lparr> opt_stream = JBool True, opt_text = JUndefined, opt_model = JUndefined,
       opt_systemPrompt = JUndefined, opt_outputSchema = JUndefined,
       opt_userLocation = JUndefined \<rparr>) opt_stream)
   \<and> (\<exists>e. answer (\<lambda>v. False) (\<lambda>v. v)
            (\<lambda>endpoint method b (w::string list). (Inr b, endpoint # w))
            ''why'' (Some \<lparr> opt_stream = JBool True, opt_text = JUndefined,
               opt_model = JUndefined, opt_systemPrompt = JUndefined,
               opt_outputSchema = JUndefined, opt_userLocation = JUndefined \<rparr>) []
          = (Inl (Exa e), []) \<and> statusCode e = 400)"
proof -
  let ?o = "Some \<lparr> opt_stream = JBool True, opt_text = JUndefined, opt_model = JUndefined,
       opt_systemPrompt = JUndefined, opt_outputSchema = JUndefined,
       opt_userLocation = JUndefined \<rparr>"
  have t: "truthy (opt ?o opt_stream)" by (simp add: opt_def)
  show ?thesis
    using t answer_stream_rejected [OF t, of "\<lambda>v. False" "\<lambda>v. v"
        "\<lambda>endpoint method b (w::string list). (Inr b, endpoint # w)" "''why''" "[]"]
    by auto
qed

end
